theory Spec2Isabelle
  imports Main "HOL-Library.Word" "HOL-Library.Sublist"
begin

unbundle bit_operations_syntax

section \<open>The monitor client of idf\_wmonitor (client.go, coredump.go)\<close>

text \<open>
  The client talks to a device over one TCP connection. Everything outside the Go code
  (the socket, the clock, the terminal, the file system, the external tool) is the
  \<^emph>\<open>world\<close>: a record that is passed through every operation. What the world will
  answer to the client's calls is written in the record beforehand (what the socket
  will deliver, which writes will fail), and everything the client does to the world is
  appended to a trace of events. Time is an integer count of nanoseconds, as Go's
  \<open>time.Duration\<close> is. Go's \<open>int\<close> is taken as the 64-bit type, which no value below
  leaves.
\<close>

subsection \<open>Bytes, errors, events\<close>

type_synonym byte = "8 word"

text \<open>
  Go's \<open>error\<close> values that the client can meet: \<open>*net.OpError\<close> with its
  \<open>Timeout()\<close> answer and its message, an \<open>errors.New\<close>/\<open>fmt.Errorf\<close> value with its
  message, and \<open>io.EOF\<close> and \<open>io.ErrUnexpectedEOF\<close>.
\<close>

datatype error =
    OpError bool string
  | ErrorString string
  | EOF
  | ErrUnexpectedEOF

fun Error :: "error \<Rightarrow> string" where
  "Error (OpError t m) = m"
| "Error (ErrorString m) = m"
| "Error EOF = ''EOF''"
| "Error ErrUnexpectedEOF = ''unexpected EOF''"

text \<open>A run-time panic of the Go program: it ends the goroutine, nothing is returned.\<close>

datatype panic =
    SliceBoundsOutOfRange nat nat
  | IntegerDivideByZero

record Host =
  Host :: string
  Addr :: string

record HostConfig =
  Version :: byte
  WifiSSID :: "byte list"
  WifiPassword :: "byte list"
  WifiMode :: byte

datatype stream = Stdout | Stderr

text \<open>The texts the client prints with \<open>fmt.Fprintf\<close>, by format and arguments.\<close>

datatype message =
    MsgOTAProgress "32 word" int int
  | MsgOTAFailed
  | MsgOTAFinished
  | MsgContinued
  | MsgFoundCoredump nat
  | MsgErrorDisplayingCoredump error
  | MsgUnknownCommand byte
  | MsgRebooting string
  | MsgPrompt string

type_synonym conn = nat
type_synonym callback = nat

datatype event =
    ConnWrite "byte list"
  | Slept int
  | ConnClose conn "conn option"
  | Fprint stream "byte list"
  | Fprintf stream message
  | OnConfig callback HostConfig
  | TempFileCreate
  | TempFileWrite "byte list"
  | TempFileClose
  | TempFileRemove
  | RunEspCoredump string

text \<open>
  What successive reads of the socket meet: a byte, an error of the read in progress, or
  time passing while the read waits.
\<close>

datatype rx_item = Data byte | Fail error | Elapse nat

record world =
  now :: int
  rx :: "rx_item list"
  wr_errs :: "error option list"
  stdin_lines :: "string list"
  tmp_create_err :: "error option"
  tmp_write_err :: "error option"
  tmp_close_err :: "error option"
  tool_err :: "error option"
  trace :: "event list"

subsection \<open>Constants of client.go\<close>

definition cmdPrintStdout :: byte where "cmdPrintStdout = 0"
definition cmdPrintStderr :: byte where "cmdPrintStderr = 1"
definition cmdPong :: byte where "cmdPong = 5"
definition cmdOTAProgress :: byte where "cmdOTAProgress = 6"
definition cmdOTASuccess :: byte where "cmdOTASuccess = 7"
definition cmdOTAFailed :: byte where "cmdOTAFailed = 8"
definition cmdConfig :: byte where "cmdConfig = 9"
definition cmdPing :: byte where "cmdPing = 128"
definition cmdReboot :: byte where "cmdReboot = 129"
definition cmdOTA :: byte where "cmdOTA = 130"
definition cmdContinue :: byte where "cmdContinue = 131"
definition cmdCoredumpRead :: byte where "cmdCoredumpRead = 132"
definition cmdCoredumpErase :: byte where "cmdCoredumpErase = 133"
definition cmdGetConfig :: byte where "cmdGetConfig = 134"
definition cmdSetConfig :: byte where "cmdSetConfig = 135"

definition Millisecond :: int where "Millisecond = 1000000"
definition Second :: int where "Second = 1000000000"

definition otaTimeout :: int where "otaTimeout = Second * 5"

definition hostConfigVersion :: byte where "hostConfigVersion = 1"
definition hostConfigSSIDLen :: nat where "hostConfigSSIDLen = 33"
definition hostConfigPasswordLen :: nat where "hostConfigPasswordLen = 64"

definition WifiModeAuto :: byte where "WifiModeAuto = 0"
definition WifiModeAP :: byte where "WifiModeAP = 2"

subsection \<open>The client\<close>

text \<open>
  The fields of \<open>Client\<close> that the protocol engine reads and writes. \<open>conn\<close> is
  \<open>None\<close> for Go's nil. The \<open>Host\<close> pointer is set by the caller before \<open>Connect\<close>
  and the three streams are the ones \<open>NewClient\<close> received; both are taken as present.
  A pending callback is known by its identity; calling it is an event of the trace.
\<close>

record Client =
  host :: Host
  conn :: "conn option"
  timeouts :: int
  otaSize :: int
  otaLastMessage :: int
  onConfig :: "callback option"

subsection \<open>The socket and the clock\<close>

text \<open>
  \<open>conn.Write\<close>: the call is recorded; whether it fails is the next entry of
  \<open>wr_errs\<close> (no entry left: it succeeds).
\<close>

definition conn_Write :: "byte list \<Rightarrow> world \<Rightarrow> error option \<times> world" where
  "conn_Write data w =
     (case wr_errs w of
        [] \<Rightarrow> (None, w\<lparr>trace := trace w @ [ConnWrite data]\<rparr>)
      | r # rs \<Rightarrow> (r, w\<lparr>wr_errs := rs, trace := trace w @ [ConnWrite data]\<rparr>))"

definition time_Sleep :: "int \<Rightarrow> world \<Rightarrow> world" where
  "time_Sleep d w = w\<lparr>now := now w + d, trace := trace w @ [Slept d]\<rparr>"

definition time_Since :: "int \<Rightarrow> world \<Rightarrow> int" where
  "time_Since t w = now w - t"

subsection \<open>isFlashingOTA and the throttled writer\<close>

definition isFlashingOTA :: "Client \<Rightarrow> world \<Rightarrow> bool" where
  "isFlashingOTA c w = (otaSize c > 0 \<and> time_Since (otaLastMessage c) w < otaTimeout)"

definition blocksize :: nat where "blocksize = 100 * 1024"
definition interval :: int where "interval = 1000 * Millisecond"

text \<open>
  The loop of \<open>write\<close>: \<open>for pos := 0; pos < len(data); pos += blocksize\<close>, with the
  body's three statements in order.
\<close>

function write_loop :: "byte list \<Rightarrow> nat \<Rightarrow> world \<Rightarrow> error option \<times> world" where
  "write_loop data pos w =
     (if pos < length data then
        (let stop = (if pos + blocksize > length data then length data else pos + blocksize)
         in case conn_Write (take (stop - pos) (drop pos data)) w of
              (Some err, w1) \<Rightarrow> (Some err, w1)
            | (None, w1) \<Rightarrow>
                write_loop data (pos + blocksize)
                  (if pos < length data then time_Sleep interval w1 else w1))
      else (None, w))"
  by pat_completeness auto
termination
  by (relation "measure (\<lambda>(data, pos, w). length data - pos)") (auto simp: blocksize_def)

declare write_loop.simps [simp del]

text \<open>\<open>write\<close> of client.go (the name is taken in Isabelle, hence the suffix).\<close>

definition write_bytes :: "Client \<Rightarrow> byte list \<Rightarrow> world \<Rightarrow> error option \<times> world" where
  "write_bytes c data w =
     (case conn c of
        Some k \<Rightarrow> write_loop data 0 w
      | None \<Rightarrow> (Some (ErrorString ''not connected''), w))"

definition writeByte :: "Client \<Rightarrow> byte \<Rightarrow> world \<Rightarrow> error option \<times> world" where
  "writeByte c b w = write_bytes c [b] w"


subsection \<open>Reading from the socket\<close>

text \<open>
  \<open>read_bytes n\<close> takes up to \<open>n\<close> bytes from what the socket will deliver, at the
  time \<open>t\<close>: it gives the bytes read, the error that stopped it (if any), what is left
  and the time afterwards. A read of no bytes returns at once, as \<open>io.ReadFull\<close> with an
  empty buffer does; a socket with nothing left has been closed by the peer.
\<close>

fun read_bytes :: "nat \<Rightarrow> rx_item list \<Rightarrow> int \<Rightarrow> byte list \<times> error option \<times> rx_item list \<times> int" where
  "read_bytes n [] t = (if n = 0 then ([], None, [], t) else ([], Some EOF, [], t))"
| "read_bytes n (Elapse d # r) t =
     (if n = 0 then ([], None, Elapse d # r, t) else read_bytes n r (t + int d))"
| "read_bytes n (Fail e # r) t =
     (if n = 0 then ([], None, Fail e # r, t) else ([], Some e, r, t))"
| "read_bytes n (Data b # r) t =
     (if n = 0 then ([], None, Data b # r, t)
      else (case read_bytes (n - 1) r t of (bs, e, r', t') \<Rightarrow> (b # bs, e, r', t')))"

text \<open>
  \<open>conn.Read(cmd)\<close> with the one-byte buffer of \<open>Run\<close>: the byte, or the error.
\<close>

definition conn_Read :: "world \<Rightarrow> (error + byte) \<times> world" where
  "conn_Read w =
     (case read_bytes 1 (rx w) (now w) of
        (bs, e, r', t') \<Rightarrow>
          ((case e of Some err \<Rightarrow> Inl err
            | None \<Rightarrow> (case bs of [] \<Rightarrow> Inl EOF | b # _ \<Rightarrow> Inr b)),
           w\<lparr>now := t', rx := r'\<rparr>))"

text \<open>
  \<open>io.ReadFull(conn, buf)\<close> with \<open>buf\<close> a fresh buffer of \<open>n\<close> zero bytes: the buffer
  afterwards (what was read, the rest still zero) and the error; an end of file after
  some bytes is \<open>io.ErrUnexpectedEOF\<close>.
\<close>

definition io_ReadFull :: "nat \<Rightarrow> world \<Rightarrow> byte list \<times> error option \<times> world" where
  "io_ReadFull n w =
     (case read_bytes n (rx w) (now w) of
        (bs, e, r', t') \<Rightarrow>
          (bs @ replicate (n - length bs) 0,
           (case e of
              Some EOF \<Rightarrow> if bs = [] then Some EOF else Some ErrUnexpectedEOF
            | _ \<Rightarrow> e),
           w\<lparr>now := t', rx := r'\<rparr>))"

fun Uint16 :: "byte list \<Rightarrow> 16 word" where
  "Uint16 (b0 # b1 # _) = (ucast b1 OR push_bit 8 (ucast b0))"
| "Uint16 _ = 0"

fun Uint32 :: "byte list \<Rightarrow> 32 word" where
  "Uint32 (b0 # b1 # b2 # b3 # _) =
     (ucast b3 OR push_bit 8 (ucast b2) OR push_bit 16 (ucast b1) OR push_bit 24 (ucast b0))"
| "Uint32 _ = 0"

definition PutUint16 :: "16 word \<Rightarrow> byte list" where
  "PutUint16 v = [ucast (drop_bit 8 v), ucast v]"

definition PutUint32 :: "32 word \<Rightarrow> byte list" where
  "PutUint32 v = [ucast (drop_bit 24 v), ucast (drop_bit 16 v), ucast (drop_bit 8 v), ucast v]"

text \<open>
  \<open>binary.Read(conn, binary.BigEndian, &x)\<close> for a variable \<open>x\<close> that holds zero:
  on an error \<open>x\<close> is left as it was.
\<close>

definition binary_Read_uint8 :: "world \<Rightarrow> byte \<times> error option \<times> world" where
  "binary_Read_uint8 w =
     (case io_ReadFull 1 w of
        (bs, Some e, w1) \<Rightarrow> (0, Some e, w1)
      | (bs, None, w1) \<Rightarrow> (hd bs, None, w1))"

definition binary_Read_uint16 :: "world \<Rightarrow> 16 word \<times> error option \<times> world" where
  "binary_Read_uint16 w =
     (case io_ReadFull 2 w of
        (bs, Some e, w1) \<Rightarrow> (0, Some e, w1)
      | (bs, None, w1) \<Rightarrow> (Uint16 bs, None, w1))"

definition binary_Read_uint32 :: "world \<Rightarrow> 32 word \<times> error option \<times> world" where
  "binary_Read_uint32 w =
     (case io_ReadFull 4 w of
        (bs, Some e, w1) \<Rightarrow> (0, Some e, w1)
      | (bs, None, w1) \<Rightarrow> (Uint32 bs, None, w1))"

definition fprintf :: "stream \<Rightarrow> message \<Rightarrow> world \<Rightarrow> world" where
  "fprintf out m w = w\<lparr>trace := trace w @ [Fprintf out m]\<rparr>"

subsection \<open>handleError, print, readBlob\<close>

definition handleError :: "Client \<Rightarrow> error option \<Rightarrow> world \<Rightarrow> bool \<times> Client \<times> world" where
  "handleError c err w =
     (case err of
        Some e \<Rightarrow>
          (case e of
             OpError tmo m \<Rightarrow>
               if tmo \<and> timeouts c = 0 then
                 if isFlashingOTA c w then (True, c, w)
                 else
                   (let c1 = c\<lparr>timeouts := timeouts c + 1\<rparr>;
                        (werr, w1) = writeByte c1 cmdPing w
                    in (True, c1, w1))
               else (False, c, w)
           | _ \<Rightarrow> (False, c, w))
      | None \<Rightarrow> (True, c, w))"

definition print :: "Client \<Rightarrow> stream \<Rightarrow> world \<Rightarrow> error option \<times> world" where
  "print c out w =
     (case binary_Read_uint32 w of
        (s, Some e, w1) \<Rightarrow> (Some e, w1)
      | (s, None, w1) \<Rightarrow>
          (case io_ReadFull (unat s) w1 of
             (data, Some e, w2) \<Rightarrow> (Some e, w2)
           | (data, None, w2) \<Rightarrow>
               (None, if \<not> isFlashingOTA c w2 then w2\<lparr>trace := trace w2 @ [Fprint out data]\<rparr>
                      else w2)))"

text \<open>
  \<open>readBlob\<close> takes a pointer to the length variable; its two callers pass a
  \<open>*uint16\<close> or a \<open>*uint32\<close>, so the type switch never reaches its panic.
\<close>

datatype blob_width = U16 | U32

definition readBlob :: "Client \<Rightarrow> blob_width \<Rightarrow> world \<Rightarrow> (byte list \<times> error option) \<times> Client \<times> world" where
  "readBlob c width w =
     (let (blobSize, err, w1) =
            (case width of
               U16 \<Rightarrow> (case binary_Read_uint16 w of (x, e, w') \<Rightarrow> (unat x, e, w'))
             | U32 \<Rightarrow> (case binary_Read_uint32 w of (x, e, w') \<Rightarrow> (unat x, e, w')))
      in case handleError c err w1 of
           (False, c1, w2) \<Rightarrow> (([], err), c1, w2)
         | (True, c1, w2) \<Rightarrow>
             (case io_ReadFull blobSize w2 of
                (data, err2, w3) \<Rightarrow>
                  (case handleError c1 err2 w3 of
                     (False, c2, w4) \<Rightarrow> (([], err2), c2, w4)
                   | (True, c2, w4) \<Rightarrow> ((data, None), c2, w4))))"

definition readBlob32 :: "Client \<Rightarrow> world \<Rightarrow> (byte list \<times> error option) \<times> Client \<times> world" where
  "readBlob32 c w = readBlob c U32 w"

definition readBlob16 :: "Client \<Rightarrow> world \<Rightarrow> (byte list \<times> error option) \<times> Client \<times> world" where
  "readBlob16 c w = readBlob c U16 w"

subsection \<open>The core-dump workflow (coredump.go and the prompt)\<close>

text \<open>
  How a call ends: it returns, it panics, or it never returns.
\<close>

datatype 'a outcome = Returns 'a | Panics panic | Hangs

text \<open>
  A line of the terminal input is the text up to and including its newline;
  at the end of the input \<open>ReadString\<close> gives the empty text (and an error that
  \<open>PromptUser\<close> drops). \<open>strings.TrimSpace\<close> is given for the ASCII white space.
\<close>

definition ReadString :: "world \<Rightarrow> string \<times> world" where
  "ReadString w =
     (case stdin_lines w of
        [] \<Rightarrow> ([], w)
      | l # ls \<Rightarrow> (l, w\<lparr>stdin_lines := ls\<rparr>))"

definition isSpace :: "char \<Rightarrow> bool" where
  "isSpace ch = (ch = CHR '' '' \<or> ch = CHR 0x09 \<or> ch = CHR 0x0A \<or> ch = CHR 0x0B
                 \<or> ch = CHR 0x0C \<or> ch = CHR 0x0D)"

definition TrimSpace :: "string \<Rightarrow> string" where
  "TrimSpace st = rev (dropWhile isSpace (rev (dropWhile isSpace st)))"

partial_function (option) PromptUser ::
  "string \<Rightarrow> (string \<Rightarrow> 'a \<Rightarrow> world \<Rightarrow> bool \<times> 'a \<times> world) \<Rightarrow> 'a \<Rightarrow> world
     \<Rightarrow> (string \<times> 'a \<times> world) option" where
  "PromptUser prompt isValid a w =
     (let w1 = fprintf Stdout (MsgPrompt prompt) w;
          st = TrimSpace (fst (ReadString w1));
          w2 = snd (ReadString w1)
      in case isValid st a w2 of
           (ok, a', w3) \<Rightarrow>
             if ok then Some (st, a', w3) else PromptUser prompt isValid a' w3)"

text \<open>
  \<open>runEspCoredump\<close> starts the external tool with the operation \<open>op\<close> on the
  temporary file and waits for it; the tool's exit is the world's.
\<close>

definition runEspCoredump :: "string \<Rightarrow> world \<Rightarrow> error option \<times> world" where
  "runEspCoredump op w = (tool_err w, w\<lparr>trace := trace w @ [RunEspCoredump op]\<rparr>)"

text \<open>
  The function literal that \<open>DisplayCoreDump\<close> hands to \<open>PromptUser\<close>. Its captured
  variables are the results \<open>del\<close> and \<open>ret\<close>.
\<close>

definition DisplayCoreDump_isValid ::
  "string \<Rightarrow> bool \<times> error option \<Rightarrow> world \<Rightarrow> bool \<times> (bool \<times> error option) \<times> world" where
  "DisplayCoreDump_isValid st dr w =
     (case dr of
        (del, ret) \<Rightarrow>
          if st = ''v'' \<or> st = ''V'' \<or> st = [] then
            (case runEspCoredump ''info_corefile'' w of
               (Some e, w1) \<Rightarrow> (True, (False, Some e), w1)
             | (None, w1) \<Rightarrow> (True, (del, ret), w1))
          else if st = ''g'' \<or> st = ''G'' then
            (case runEspCoredump ''dbg_corefile'' w of
               (Some e, w1) \<Rightarrow> (True, (False, Some e), w1)
             | (None, w1) \<Rightarrow> (True, (del, ret), w1))
          else if st = ''d'' \<or> st = ''D'' then (True, (True, ret), w)
          else if st = ''i'' \<or> st = ''I'' then (True, (False, ret), w)
          else (False, (del, ret), w))"

definition coredump_prompt :: string where
  "coredump_prompt = ''Select what do to with this coredump [(V)iew/(g)db/(d)elete/(i)ignore]: ''"

definition log_event :: "event \<Rightarrow> world \<Rightarrow> world" where
  "log_event ev w = w\<lparr>trace := trace w @ [ev]\<rparr>"

definition DisplayCoreDump :: "byte list \<Rightarrow> world \<Rightarrow> (bool \<times> error option \<times> world) outcome" where
  "DisplayCoreDump data w =
     (let w1 = log_event TempFileCreate w
      in case tmp_create_err w1 of
           Some e \<Rightarrow> Returns (False, Some e, w1)
         | None \<Rightarrow>
             if 4 > length data then Panics (SliceBoundsOutOfRange 4 (length data))
             else
               (let w2 = log_event (TempFileWrite (drop 4 data)) w1
                in case tmp_write_err w2 of
                     Some e \<Rightarrow>
                       Returns (False, Some e, log_event TempFileRemove (log_event TempFileClose w2))
                   | None \<Rightarrow>
                       (let w3 = log_event TempFileClose w2
                        in case tmp_close_err w3 of
                             Some e \<Rightarrow> Returns (False, Some e, log_event TempFileRemove w3)
                           | None \<Rightarrow>
                               (case PromptUser coredump_prompt DisplayCoreDump_isValid
                                       (False, None) w3 of
                                  None \<Rightarrow> Hangs
                                | Some (st, (del, ret), w4) \<Rightarrow>
                                    Returns (del, ret, log_event TempFileRemove w4)))))"

subsection \<open>Requests: Reboot, GetConfig, SetConfig, Flash\<close>

definition Reboot :: "Client \<Rightarrow> world \<Rightarrow> error option \<times> world" where
  "Reboot c w = writeByte c cmdReboot (fprintf Stdout (MsgRebooting (Host (host c))) w)"

definition GetConfig :: "Client \<Rightarrow> callback option \<Rightarrow> world \<Rightarrow> error option \<times> Client \<times> world" where
  "GetConfig c f w =
     (let c1 = c\<lparr>onConfig := f\<rparr>
      in case writeByte c1 cmdGetConfig w of (err, w1) \<Rightarrow> (err, c1, w1))"

text \<open>The padding loop \<open>for len(x) < n { x = append(x, 0) }\<close>.\<close>

function pad :: "byte list \<Rightarrow> nat \<Rightarrow> byte list" where
  "pad x n = (if length x < n then pad (x @ [0]) n else x)"
  by pat_completeness auto
termination
  by (relation "measure (\<lambda>(x, n). n - length x)") auto

declare pad.simps [simp del]

text \<open>The buffer that \<open>SetConfig\<close> fills and hands to \<open>write\<close>.\<close>

definition SetConfig_buf :: "HostConfig \<Rightarrow> byte list" where
  "SetConfig_buf cfg =
     [cmdSetConfig]
     @ PutUint16 (word_of_nat (hostConfigSSIDLen + hostConfigPasswordLen + 2))
     @ [hostConfigVersion]
     @ pad (WifiSSID cfg) hostConfigSSIDLen
     @ pad (WifiPassword cfg) hostConfigPasswordLen
     @ [WifiMode cfg]"

definition SetConfig :: "Client \<Rightarrow> HostConfig \<Rightarrow> world \<Rightarrow> error option \<times> world" where
  "SetConfig c cfg w = write_bytes c (SetConfig_buf cfg) w"

text \<open>
  \<open>Flash\<close>: \<open>file\<close> is what \<open>ioutil.ReadFile(bin)\<close> returns, the error or the bytes
  of the image.
\<close>

definition Flash :: "Client \<Rightarrow> error + byte list \<Rightarrow> world \<Rightarrow> error option \<times> Client \<times> world" where
  "Flash c file w =
     (case file of
        Inl err \<Rightarrow> (Some err, c, w)
      | Inr data \<Rightarrow>
          (let c1 = c\<lparr>otaSize := int (length data), otaLastMessage := now w\<rparr>;
               buf = [cmdOTA] @ PutUint32 (word_of_nat (length data)) @ data
           in case write_bytes c1 buf w of (err, w1) \<Rightarrow> (err, c1, w1)))"

subsection \<open>Connect and Close\<close>

text \<open>\<open>dial\<close> is what \<open>net.Dial("tcp", c.Host.Addr)\<close> returns.\<close>

definition Connect :: "Client \<Rightarrow> error + conn \<Rightarrow> world \<Rightarrow> error option \<times> Client \<times> world" where
  "Connect c dial w =
     (case dial of
        Inl err \<Rightarrow>
          (Some (ErrorString (''error connecting to '' @ Host (host c) @ '': '' @ Error err)), c, w)
      | Inr k \<Rightarrow>
          (let c1 = c\<lparr>conn := Some k, timeouts := 0, otaSize := 0\<rparr>
           in case writeByte c1 cmdCoredumpRead w of (werr, w1) \<Rightarrow> (None, c1, w1)))"

text \<open>
  \<open>closed\<close> is what \<open>conn.Close()\<close> returns. The event of the call keeps the value
  that the field \<open>c.conn\<close> has at that moment, which is what the reader loop would see.
\<close>

definition Close :: "Client \<Rightarrow> error option \<Rightarrow> world \<Rightarrow> error option \<times> Client \<times> world" where
  "Close c closed w =
     (case conn c of
        Some k \<Rightarrow>
          (let c1 = c\<lparr>conn := None\<rparr>;
               w1 = log_event (ConnClose k (conn c1)) w
           in case closed of
                Some err \<Rightarrow> (Some err, c1\<lparr>conn := Some k\<rparr>, w1)
              | None \<Rightarrow> (None, c1, w1))
      | None \<Rightarrow> (None, c, w))"

subsection \<open>The reader loop\<close>

text \<open>
  Go's integer division truncates towards zero and panics on a zero divisor.
\<close>

definition quo :: "int \<Rightarrow> int \<Rightarrow> panic + int" where
  "quo a b = (if b = 0 then Inl IntegerDivideByZero else Inr (sgn a * sgn b * (\<bar>a\<bar> div \<bar>b\<bar>)))"

text \<open>\<open>bytes.Trim(s, "\x00")\<close>: the cut set is one byte, taken off the right, then the left.\<close>

definition trimRightByte :: "byte list \<Rightarrow> byte \<Rightarrow> byte list" where
  "trimRightByte s c = rev (dropWhile (\<lambda>b. b = c) (rev s))"

definition trimLeftByte :: "byte list \<Rightarrow> byte \<Rightarrow> byte list" where
  "trimLeftByte s c = dropWhile (\<lambda>b. b = c) s"

definition Trim_NUL :: "byte list \<Rightarrow> byte list" where
  "Trim_NUL s = trimLeftByte (trimRightByte s 0) 0"

text \<open>
  How one pass through the body of \<open>for { ... }\<close> in \<open>Run\<close> ends: with the next pass,
  by leaving the loop (\<open>Run\<close> then returns nil), or with \<open>return err\<close>.
\<close>

datatype flow = Continue | Break | Return "error option"

text \<open>
  The block under \<open>if size > 0\<close> of the \<open>cmdConfig\<close> case, which fills \<open>cfg\<close>:
  \<open>Inl err\<close> when it leaves \<open>Run\<close> with \<open>return err\<close>, the filled record otherwise.
\<close>

definition Run_config_fields ::
  "Client \<Rightarrow> HostConfig \<Rightarrow> world \<Rightarrow> (error option + HostConfig) \<times> Client \<times> world" where
  "Run_config_fields c cfg w =
     (case binary_Read_uint8 w of
        (v, err1, w1) \<Rightarrow>
     (case handleError c err1 w1 of
        (False, c1, w2) \<Rightarrow> (Inl err1, c1, w2)
      | (True, c1, w2) \<Rightarrow>
     (case io_ReadFull hostConfigSSIDLen w2 of
        (ssidData, err2, w3) \<Rightarrow>
     (case handleError c1 err2 w3 of
        (False, c2, w4) \<Rightarrow> (Inl err2, c2, w4)
      | (True, c2, w4) \<Rightarrow>
     (case io_ReadFull hostConfigPasswordLen w4 of
        (passwordData, err3, w5) \<Rightarrow>
     (case handleError c2 err3 w5 of
        (False, c3, w6) \<Rightarrow> (Inl err3, c3, w6)
      | (True, c3, w6) \<Rightarrow>
     (case binary_Read_uint8 w6 of
        (m, err4, w7) \<Rightarrow>
     (case handleError c3 err4 w7 of
        (False, c4, w8) \<Rightarrow> (Inl err4, c4, w8)
      | (True, c4, w8) \<Rightarrow>
          (Inr (cfg\<lparr>Version := v, WifiSSID := Trim_NUL ssidData,
                     WifiPassword := Trim_NUL passwordData, WifiMode := m\<rparr>),
           c4, w8)))))))))"

text \<open>The \<open>switch cmd[0]\<close> of \<open>Run\<close>, case by case.\<close>

definition Run_switch :: "Client \<Rightarrow> byte \<Rightarrow> world \<Rightarrow> (flow \<times> Client \<times> world) outcome" where
  "Run_switch c cmd w =
     (if cmd = cmdPrintStdout then
        (case print c Stdout w of
           (err, w1) \<Rightarrow>
             (case handleError c err w1 of
                (False, c1, w2) \<Rightarrow> Returns (Return err, c1, w2)
              | (True, c1, w2) \<Rightarrow> Returns (Continue, c1, w2)))
      else if cmd = cmdPrintStderr then
        (case print c Stderr w of
           (err, w1) \<Rightarrow>
             (case handleError c err w1 of
                (False, c1, w2) \<Rightarrow> Returns (Return err, c1, w2)
              | (True, c1, w2) \<Rightarrow> Returns (Continue, c1, w2)))
      else if cmd = cmdPong then Returns (Continue, c, w)
      else if cmd = cmdOTAProgress then
        (if \<not> isFlashingOTA c w then Returns (Continue, c, w)
         else
           (case binary_Read_uint32 w of
              (offset, err, w1) \<Rightarrow>
                (case handleError c err w1 of
                   (False, c1, w2) \<Rightarrow> Returns (Return err, c1, w2)
                 | (True, c1, w2) \<Rightarrow>
                     (case quo (int (unat offset) * 100) (otaSize c1) of
                        Inl p \<Rightarrow> Panics p
                      | Inr percentage \<Rightarrow>
                          (let w3 = fprintf Stdout (MsgOTAProgress offset (otaSize c1) percentage) w2
                           in Returns (Continue, c1\<lparr>otaLastMessage := now w3\<rparr>, w3))))))
      else if cmd = cmdOTAFailed then
        (if \<not> isFlashingOTA c w then Returns (Continue, c, w)
         else Returns (Continue, c\<lparr>otaSize := 0\<rparr>, fprintf Stdout MsgOTAFailed w))
      else if cmd = cmdOTASuccess then
        (if \<not> isFlashingOTA c w then Returns (Continue, c, w)
         else Returns (Continue, c\<lparr>otaSize := 0\<rparr>, fprintf Stdout MsgOTAFinished w))
      else if cmd = cmdContinue then Returns (Continue, c, fprintf Stdout MsgContinued w)
      else if cmd = cmdCoredumpRead then
        (case readBlob32 c w of
           ((data, err), c1, w1) \<Rightarrow>
             (case err of
                Some e \<Rightarrow> Returns (Return err, c1, w1)
              | None \<Rightarrow>
                  if length data = 0 then
                    (case writeByte c1 cmdContinue w1 of
                       (werr, w2) \<Rightarrow> Returns (Continue, c1, w2))
                  else
                    (case DisplayCoreDump data (fprintf Stdout (MsgFoundCoredump (length data)) w1) of
                       Panics p \<Rightarrow> Panics p
                     | Hangs \<Rightarrow> Hangs
                     | Returns (del, derr, w3) \<Rightarrow>
                         (let w4 = (case derr of
                                      Some e \<Rightarrow> fprintf Stderr (MsgErrorDisplayingCoredump e) w3
                                    | None \<Rightarrow> w3)
                          in if del then
                               (case writeByte c1 cmdCoredumpErase w4 of
                                  (werr, w5) \<Rightarrow> Returns (Continue, c1, w5))
                             else
                               (case writeByte c1 cmdContinue w4 of
                                  (werr, w5) \<Rightarrow> Returns (Continue, c1, w5))))))
      else if cmd = cmdCoredumpErase then
        (case writeByte c cmdContinue w of (werr, w1) \<Rightarrow> Returns (Continue, c, w1))
      else if cmd = cmdConfig then
        (case binary_Read_uint16 w of
           (size', err, w1) \<Rightarrow>
             (case handleError c err w1 of
                (False, c1, w2) \<Rightarrow> Returns (Return err, c1, w2)
              | (True, c1, w2) \<Rightarrow>
                  (let cfg0 = \<lparr>Version = 0, WifiSSID = [], WifiPassword = [], WifiMode = 0\<rparr>
                   in case (if size' > 0 then Run_config_fields c1 cfg0 w2 else (Inr cfg0, c1, w2)) of
                        (Inl rerr, c2, w3) \<Rightarrow> Returns (Return rerr, c2, w3)
                      | (Inr cfg, c2, w3) \<Rightarrow>
                          (let w4 = (case onConfig c2 of
                                       Some f \<Rightarrow> log_event (OnConfig f cfg) w3
                                     | None \<Rightarrow> snd (Reboot c2 w3))
                           in Returns (Continue, c2\<lparr>onConfig := None\<rparr>, w4)))))
      else Returns (Continue, c, fprintf Stderr (MsgUnknownCommand cmd) w))"

text \<open>One pass through the body of the loop of \<open>Run\<close>.\<close>

definition Run_iteration :: "Client \<Rightarrow> world \<Rightarrow> (flow \<times> Client \<times> world) outcome" where
  "Run_iteration c w =
     (case conn c of
        None \<Rightarrow> Returns (Break, c, w)
      | Some k \<Rightarrow>
          (case conn_Read w of
             (Inl err, w1) \<Rightarrow>
               if conn c = None then Returns (Break, c, w1)
               else
                 (case handleError c (Some err) w1 of
                    (True, c1, w2) \<Rightarrow> Returns (Continue, c1, w2)
                  | (False, c1, w2) \<Rightarrow> Returns (Return (Some err), c1, w2))
           | (Inr cmd, w1) \<Rightarrow> Run_switch (c\<lparr>timeouts := 0\<rparr>) cmd w1))"

text \<open>
  \<open>Run\<close>: the passes repeated. \<open>None\<close> is a loop, or a prompt, that never ends.
\<close>

partial_function (option) Run ::
  "Client \<Rightarrow> world \<Rightarrow> (panic + error option \<times> Client \<times> world) option" where
  "Run c w =
     (case Run_iteration c w of
        Hangs \<Rightarrow> None
      | Panics p \<Rightarrow> Some (Inl p)
      | Returns (fl, c1, w1) \<Rightarrow>
          (case fl of
             Continue \<Rightarrow> Run c1 w1
           | Break \<Rightarrow> Some (Inr (None, c1, w1))
           | Return err \<Rightarrow> Some (Inr (err, c1, w1))))"

subsection \<open>Notions of the specification\<close>

text \<open>
  The number of chunks the specification gives for a payload of \<open>L\<close> bytes: \<open>L\<close> over
  100 KB, rounded up.
\<close>

definition nchunks :: "nat \<Rightarrow> nat" where
  "nchunks L = (L + blocksize - 1) div blocksize"

text \<open>
  What the writer does with a payload from position \<open>pos\<close> on when no write fails, as a
  list of events: for each chunk the write, then the pause.
\<close>

definition paced :: "byte list \<Rightarrow> nat \<Rightarrow> event list" where
  "paced data pos =
     concat (map (\<lambda>i. [ConnWrite (take blocksize (drop (pos + i * blocksize) data)), Slept interval])
                 [0..<nchunks (length data - pos)])"

text \<open>
  An error is a timeout for \<open>handleError\<close> when it is a \<open>*net.OpError\<close> whose
  \<open>Timeout()\<close> is true.
\<close>

fun is_timeout :: "error \<Rightarrow> bool" where
  "is_timeout (OpError tmo m) = tmo"
| "is_timeout _ = False"

text \<open>\<open>strings.Contains\<close>: the text \<open>sub\<close> occurs in \<open>s\<close>.\<close>

fun contains :: "string \<Rightarrow> string \<Rightarrow> bool" where
  "contains [] sub = (sub = [])"
| "contains (x # xs) sub = (prefix sub (x # xs) \<or> contains xs sub)"

subsection \<open>Sample states\<close>

definition c0 :: Client where
  "c0 = \<lparr>host = \<lparr>Host = ''esp32.local.'', Addr = ''192.168.4.1:8080''\<rparr>, conn = Some 0,
         timeouts = 0, otaSize = 0, otaLastMessage = 0, onConfig = None\<rparr>"

definition w0 :: world where
  "w0 = \<lparr>now = 0, rx = [], wr_errs = [], stdin_lines = [], tmp_create_err = None,
         tmp_write_err = None, tmp_close_err = None, tool_err = None, trace = []\<rparr>"

definition io_timeout :: error where
  "io_timeout = OpError True ''read tcp 192.168.4.2:50000->192.168.4.1:8080: i/o timeout''"

text \<open>A client whose last read already timed out once, during a transfer of 200 KB.\<close>

definition c_ota :: Client where
  "c_ota = c0\<lparr>timeouts := 1, otaSize := 204800, otaLastMessage := 0\<rparr>"

text \<open>
  A client whose host was discovered without an IPv4 address, so that the address to dial
  is the text of a nil IP and the port, and the error \<open>net.Dial\<close> gives for it.
\<close>

definition c_nil :: Client where
  "c_nil = c0\<lparr>host := \<lparr>Host = ''esp32.local.'', Addr = ''<nil>:8080''\<rparr>, conn := None\<rparr>"

definition no_such_host :: error where
  "no_such_host = OpError False ''dial tcp: lookup <nil>: no such host''"

definition close_err :: error where
  "close_err = OpError False ''close tcp 192.168.4.2:50000->192.168.4.1:8080: use of closed network connection''"

text \<open>A transfer of 100 bytes, two seconds old, and a progress report of 50 bytes.\<close>

definition c_progress :: Client where
  "c_progress = c0\<lparr>otaSize := 100, otaLastMessage := 0\<rparr>"

definition w_progress :: world where
  "w_progress = w0\<lparr>now := 2 * Second, rx := map Data [cmdOTAProgress, 0, 0, 0, 50]\<rparr>"

text \<open>
  Core-dump-read responses that announce one byte and three bytes; in the second world
  the user types \<open>d\<close> and a newline.
\<close>

definition w_dump1 :: world where
  "w_dump1 = w0\<lparr>rx := map Data [cmdCoredumpRead, 0, 0, 0, 1, 170]\<rparr>"

definition w_dump3 :: world where
  "w_dump3 = w0\<lparr>rx := map Data [cmdCoredumpRead, 0, 0, 0, 3, 1, 2, 3],
                 stdin_lines := [[CHR ''d'', CHR 0x0A]]\<rparr>"







subsection \<open>The progress handler next to a concurrent Flash\<close>

text \<open>
  \<open>main\<close> runs \<open>Flash\<close> in a goroutine of its own, next to the reader loop, and
  \<open>Flash\<close> stores into \<open>c.otaSize\<close> and \<open>c.otaLastMessage\<close> without holding
  \<open>c.mu\<close>. The two stores of \<open>Flash\<close>, and the \<open>cmdOTAProgress\<close> case of \<open>Run\<close> cut
  where the reader waits for the socket: the read of the offset with its error handling,
  and the statements after it, which read \<open>c.otaSize\<close> again.
\<close>

definition Flash_record :: "Client \<Rightarrow> byte list \<Rightarrow> world \<Rightarrow> Client" where
  "Flash_record c data w = c\<lparr>otaSize := int (length data), otaLastMessage := now w\<rparr>"

definition OTAProgress_read ::
  "Client \<Rightarrow> world \<Rightarrow> 32 word \<times> error option \<times> bool \<times> Client \<times> world" where
  "OTAProgress_read c w =
     (case binary_Read_uint32 w of
        (offset, err, w1) \<Rightarrow>
          (case handleError c err w1 of (ok, c1, w2) \<Rightarrow> (offset, err, ok, c1, w2)))"

definition OTAProgress_report ::
  "Client \<Rightarrow> 32 word \<Rightarrow> world \<Rightarrow> (flow \<times> Client \<times> world) outcome" where
  "OTAProgress_report c offset w =
     (case quo (int (unat offset) * 100) (otaSize c) of
        Inl p \<Rightarrow> Panics p
      | Inr percentage \<Rightarrow>
          (let w3 = fprintf Stdout (MsgOTAProgress offset (otaSize c) percentage) w
           in Returns (Continue, c\<lparr>otaLastMessage := now w3\<rparr>, w3)))"

text \<open>
  The pass of the reader in which the other goroutine's \<open>Flash\<close> of the image \<open>data\<close>
  makes its two stores while the reader waits in the read of the offset: the test, the
  read, the stores, the rest of the case.
\<close>

definition OTAProgress_during_Flash ::
  "Client \<Rightarrow> byte list \<Rightarrow> world \<Rightarrow> (flow \<times> Client \<times> world) outcome" where
  "OTAProgress_during_Flash c data w =
     (if \<not> isFlashingOTA c w then Returns (Continue, c, w)
      else
        (case OTAProgress_read c w of
           (offset, err, ok, c1, w2) \<Rightarrow>
             if ok then OTAProgress_report (Flash_record c1 data w2) offset w2
             else Returns (Return err, c1, w2)))"

text \<open>
  A transfer of 100 bytes, two seconds old, after the opcode of a progress report has been
  read: the four bytes of the offset, 50, are still to come.
\<close>

definition w_offset :: world where
  "w_offset = w0\<lparr>now := 2 * Second, rx := map Data [0, 0, 0, 50]\<rparr>"

section \<open>Properties\<close>

lemmas cmd_defs =
  cmdPrintStdout_def cmdPrintStderr_def cmdPong_def cmdOTAProgress_def cmdOTASuccess_def
  cmdOTAFailed_def cmdConfig_def cmdPing_def cmdReboot_def cmdOTA_def cmdContinue_def
  cmdCoredumpRead_def cmdCoredumpErase_def cmdGetConfig_def cmdSetConfig_def

subsection \<open>The throttled writer\<close>

lemma nchunks_step: "pos < L \<Longrightarrow> nchunks (L - pos) = Suc (nchunks (L - (pos + blocksize)))"
  unfolding nchunks_def blocksize_def
  by (cases "pos + 102400 \<le> L") (auto simp: div_eq_0_iff)

lemma conn_Write_ok:
  "set (wr_errs w) \<subseteq> {None} \<Longrightarrow> conn_Write d w = (e, w1) \<Longrightarrow>
     e = None \<and> set (wr_errs w1) \<subseteq> {None} \<and> trace w1 = trace w @ [ConnWrite d]"
  by (auto simp: conn_Write_def split: list.splits)

lemma paced_unfold:
  "pos < length data \<Longrightarrow>
     paced data pos =
       [ConnWrite (take blocksize (drop pos data)), Slept interval] @ paced data (pos + blocksize)"
  unfolding paced_def nchunks_step
  by (simp add: upt_conv_Cons map_Suc_upt[symmetric] comp_def add.assoc del: upt_Suc)

text \<open>
  When no write fails, the loop sends the chunks in order and pauses after each of them.
\<close>

lemma write_loop_trace:
  "set (wr_errs w) \<subseteq> {None} \<Longrightarrow>
     fst (write_loop data pos w) = None \<and>
     trace (snd (write_loop data pos w)) = trace w @ paced data pos"
proof (induction data pos w rule: write_loop.induct)
  case (1 data pos w)
  show ?case
  proof (cases "pos < length data")
    case False
    then show ?thesis
      by (simp add: write_loop.simps[of data pos w] paced_def nchunks_def blocksize_def)
  next
    case True
    let ?stop = "if pos + blocksize > length data then length data else pos + blocksize"
    obtain e w1 where cw: "conn_Write (take (?stop - pos) (drop pos data)) w = (e, w1)"
      by force
    from conn_Write_ok[OF "1.prems" cw]
    have e: "e = None" and ok1: "set (wr_errs w1) \<subseteq> {None}"
      and tr1: "trace w1 = trace w @ [ConnWrite (take (?stop - pos) (drop pos data))]"
      by auto
    have tk: "take (?stop - pos) (drop pos data) = take blocksize (drop pos data)"
      by auto
    have step: "write_loop data pos w = write_loop data (pos + blocksize) (time_Sleep interval w1)"
      using True cw e by (subst write_loop.simps) (simp add: Let_def)
    have ok2: "set (wr_errs (time_Sleep interval w1)) \<subseteq> {None}"
      using ok1 by (simp add: time_Sleep_def)
    have ih: "fst (write_loop data (pos + blocksize) (time_Sleep interval w1)) = None \<and>
      trace (snd (write_loop data (pos + blocksize) (time_Sleep interval w1))) =
      trace (time_Sleep interval w1) @ paced data (pos + blocksize)"
      using "1.IH"[OF True refl cw[symmetric] e] ok2 True by simp
    show ?thesis using ih step tr1 tk paced_unfold[OF True] by (simp add: time_Sleep_def)
  qed
qed

lemma write_bytes_paced:
  "conn c \<noteq> None \<Longrightarrow> set (wr_errs w) \<subseteq> {None} \<Longrightarrow>
     fst (write_bytes c data w) = None \<and>
     trace (snd (write_bytes c data w)) = trace w @ paced data 0"
  using write_loop_trace[of w data 0] by (auto simp: write_bytes_def)

text \<open>
  So a payload of \<open>L\<close> bytes goes out in \<open>nchunks L\<close> chunks of at most 100 KB, and with as
  many pauses as chunks: the last event of a non-empty payload is a pause.
\<close>

lemma paced_writes:
  "length (filter (\<lambda>ev. ev \<noteq> Slept interval) (paced data pos)) = nchunks (length data - pos)"
  by (simp add: paced_def filter_concat length_concat comp_def sum_list_triv)

lemma paced_pauses:
  "length (filter (\<lambda>ev. ev = Slept interval) (paced data pos)) = nchunks (length data - pos)"
  by (simp add: paced_def filter_concat length_concat comp_def sum_list_triv)

lemma paced_chunk_size:
  "ConnWrite d \<in> set (paced data pos) \<Longrightarrow> length d \<le> blocksize"
  by (auto simp: paced_def)

lemma paced_last: "pos < length data \<Longrightarrow> last (paced data pos) = Slept interval"
proof -
  assume "pos < length data"
  then have "nchunks (length data - pos) \<noteq> 0" by (simp add: nchunks_step)
  then obtain n where n: "nchunks (length data - pos) = Suc n"
    by (cases "nchunks (length data - pos)") auto
  show ?thesis unfolding paced_def n by simp
qed

lemma write_one_byte:
  "write_loop [b] 0 w =
     (case conn_Write [b] w of
        (Some err, w1) \<Rightarrow> (Some err, w1)
      | (None, w1) \<Rightarrow> (None, time_Sleep interval w1))"
  by (simp add: write_loop.simps[of "[b]"] blocksize_def split: prod.splits option.splits)

lemma writeByte_trace:
  "writeByte c b w = (err, w') \<Longrightarrow>
     trace w' = trace w @
       (case conn c of None \<Rightarrow> []
        | Some k \<Rightarrow> ConnWrite [b] # (if err = None then [Slept interval] else []))"
  by (auto simp: writeByte_def write_bytes_def write_one_byte conn_Write_def time_Sleep_def
           split: option.splits list.splits prod.splits)

text \<open>
  Claim C1 (chunks and pacing of the writer). The chunks are as the claim says
  (\<open>write_bytes_paced\<close>, \<open>paced_writes\<close>, \<open>paced_chunk_size\<close>), but the pause is also
  made after the final chunk: the test \<open>pos < len(data)\<close> before \<open>time.Sleep\<close> is the
  loop's own condition and always holds there. The one-byte keepalive ping, sent on a
  connection with no failing write, is followed by the pause of one second.
\<close>

theorem write_pauses_after_last_chunk:
  "write_bytes c0 [cmdPing] w0 =
     (None, w0\<lparr>now := 1000 * Millisecond, trace := [ConnWrite [cmdPing], Slept (1000 * Millisecond)]\<rparr>)"
  by (simp add: write_bytes_def c0_def w0_def write_one_byte conn_Write_def time_Sleep_def
        interval_def)

subsection \<open>The timeout policy\<close>

text \<open>
  Claim C2, as amended (what \<open>handleError\<close> does with an error). No error: nothing
  happens. An error that is not a timeout, or a timeout when the counter is not zero, is
  surfaced, whether a transfer is active or not. A timeout with the counter at zero is
  suppressed: during an active transfer nothing is sent and the counter stays zero (so the
  next timeout is suppressed again); otherwise the counter becomes one and one keepalive
  ping is written to the connection that is held (followed at most by the writer's pause).
\<close>

theorem handleError_policy:
  assumes "handleError c err w = (ok, c', w')"
  shows "(err = None \<longrightarrow> ok \<and> c' = c \<and> w' = w) \<and>
         (\<forall>e. err = Some e \<and> (\<not> is_timeout e \<or> timeouts c \<noteq> 0) \<longrightarrow> \<not> ok \<and> c' = c \<and> w' = w) \<and>
         (\<forall>e. err = Some e \<and> is_timeout e \<and> timeouts c = 0 \<and> isFlashingOTA c w \<longrightarrow>
               ok \<and> c' = c \<and> w' = w) \<and>
         (\<forall>e. err = Some e \<and> is_timeout e \<and> timeouts c = 0 \<and> \<not> isFlashingOTA c w \<longrightarrow>
               ok \<and> c' = c\<lparr>timeouts := 1\<rparr> \<and>
               (\<exists>post. trace w' = trace w @ (case conn c of None \<Rightarrow> [] | Some k \<Rightarrow> ConnWrite [cmdPing] # post)
                  \<and> set post \<subseteq> {Slept interval}))"
proof (cases err)
  case None
  with assms show ?thesis by (simp add: handleError_def)
next
  case (Some e)
  show ?thesis
  proof (cases "is_timeout e \<and> timeouts c = 0")
    case False
    with assms Some show ?thesis
      by (cases e) (auto simp: handleError_def)
  next
    case True
    then obtain m where e: "e = OpError True m" by (cases e) auto
    show ?thesis
    proof (cases "isFlashingOTA c w")
      case True
      with assms Some e \<open>is_timeout e \<and> timeouts c = 0\<close> show ?thesis
        by (auto simp: handleError_def)
    next
      case False
      obtain werr w1 where wb: "writeByte (c\<lparr>timeouts := 1\<rparr>) cmdPing w = (werr, w1)" by force
      from assms Some e False True wb have r: "ok" "c' = c\<lparr>timeouts := 1\<rparr>" "w' = w1"
        by (auto simp: handleError_def)
      from writeByte_trace[OF wb] have
        "trace w1 = trace w @ (case conn c of None \<Rightarrow> []
           | Some k \<Rightarrow> ConnWrite [cmdPing] # (if werr = None then [Slept interval] else []))"
        by simp
      then have "\<exists>post. trace w1 = trace w @ (case conn c of None \<Rightarrow> [] | Some k \<Rightarrow> ConnWrite [cmdPing] # post)
                  \<and> set post \<subseteq> {Slept interval}"
        by (cases "conn c") (auto intro: exI[of _ "[]"])
      with r Some e False True show ?thesis by auto
    qed
  qed
qed

text \<open>
  The first timeout on a connected, idle client: suppressed, the counter at one, one ping.
\<close>

theorem handleError_policy_witness:
  "fst (handleError c0 (Some io_timeout) w0) \<and>
   fst (snd (handleError c0 (Some io_timeout) w0)) = c0\<lparr>timeouts := 1\<rparr> \<and>
   trace (snd (snd (handleError c0 (Some io_timeout) w0))) = [ConnWrite [cmdPing], Slept interval]"
proof -
  have h: "handleError c0 (Some io_timeout) w0 =
             (True, c0\<lparr>timeouts := 1\<rparr>,
              w0\<lparr>now := interval, trace := [ConnWrite [cmdPing], Slept interval]\<rparr>)"
    by (simp add: handleError_def io_timeout_def c0_def w0_def isFlashingOTA_def writeByte_def
          write_bytes_def write_one_byte conn_Write_def time_Sleep_def)
  have "\<not> isFlashingOTA c0 w0" by (simp add: isFlashingOTA_def c0_def)
  with handleError_policy[OF h] show ?thesis
    by (simp add: h)
qed

text \<open>
  Claim C2 as it was stated fails: 300 ms into an active transfer, a timeout that follows
  another one (the counter is at one) is surfaced.
\<close>

theorem handleError_ota_counterexample:
  "isFlashingOTA c_ota (w0\<lparr>now := 300 * Millisecond\<rparr>) \<and> is_timeout io_timeout \<and>
   \<not> fst (handleError c_ota (Some io_timeout) (w0\<lparr>now := 300 * Millisecond\<rparr>))"
  by (simp add: handleError_def io_timeout_def c_ota_def c0_def w0_def isFlashingOTA_def
        time_Since_def otaTimeout_def Second_def Millisecond_def)

subsection \<open>The transfer watchdog\<close>

text \<open>
  Claim C3, as amended (\<open>isFlashingOTA\<close>). It holds exactly when the size is positive and
  less than five seconds have passed since the last liveness time. \<open>Flash\<close> records the
  length of the image and the time of the call; from then on it holds exactly when the
  image is not empty, stays so for the five seconds that follow, and no longer holds
  from five seconds on, for the same client record, whose size is still the length of the
  image.
\<close>

theorem isFlashingOTA_watchdog:
  "(isFlashingOTA c w \<longleftrightarrow> 0 < otaSize c \<and> now w - otaLastMessage c < 5 * Second) \<and>
   (\<forall>data err c1 w1. Flash c (Inr data) w = (err, c1, w1) \<longrightarrow>
        otaSize c1 = int (length data) \<and> otaLastMessage c1 = now w \<and>
        (isFlashingOTA c1 w \<longleftrightarrow> data \<noteq> []) \<and>
        (\<forall>w'. data \<noteq> [] \<and> now w \<le> now w' \<and> now w' < now w + 5 * Second \<longrightarrow> isFlashingOTA c1 w') \<and>
        (\<forall>w'. now w + 5 * Second \<le> now w' \<longrightarrow> \<not> isFlashingOTA c1 w' \<and> otaSize c1 = int (length data))) \<and>
   (\<forall>w'. otaLastMessage c + 5 * Second \<le> now w' \<longrightarrow> \<not> isFlashingOTA c w')"
  by (auto simp: isFlashingOTA_def time_Since_def otaTimeout_def Flash_def Second_def Let_def
           split: prod.splits)

text \<open>
  Claim C3 as it was stated fails for an image file of no bytes: right after \<open>Flash\<close> has
  recorded its length, zero, \<open>isFlashingOTA\<close> is false.
\<close>

theorem Flash_empty_counterexample:
  "\<not> isFlashingOTA (fst (snd (Flash c0 (Inr []) w0))) w0"
  by (simp add: Flash_def isFlashingOTA_def Let_def split: prod.splits)

text \<open>
  A non-empty image of three bytes: active right after \<open>Flash\<close> has recorded it, no
  longer active five seconds later, the size still three.
\<close>

theorem isFlashingOTA_watchdog_witness:
  "isFlashingOTA (fst (snd (Flash c0 (Inr [1, 2, 3]) w0))) w0 \<and>
   \<not> isFlashingOTA (fst (snd (Flash c0 (Inr [1, 2, 3]) w0))) (w0\<lparr>now := 5 * Second\<rparr>) \<and>
   otaSize (fst (snd (Flash c0 (Inr [1, 2, 3]) w0))) = 3"
proof -
  let ?r = "Flash c0 (Inr [1, 2, 3]) w0"
  have h: "?r = (fst ?r, fst (snd ?r), snd (snd ?r))" by simp
  have n: "now w0 = 0" by (simp add: w0_def)
  from isFlashingOTA_watchdog[of c0 w0] h
  have a: "otaSize (fst (snd ?r)) = int (length [1, 2, 3 :: byte])"
    and b: "isFlashingOTA (fst (snd ?r)) w0 \<longleftrightarrow> [1, 2, 3 :: byte] \<noteq> []"
    and d: "\<forall>w'. now w0 + 5 * Second \<le> now w' \<longrightarrow> \<not> isFlashingOTA (fst (snd ?r)) w'"
    by blast+
  from d n have "\<not> isFlashingOTA (fst (snd ?r)) (w0\<lparr>now := 5 * Second\<rparr>)" by simp
  with a b show ?thesis by simp
qed

subsection \<open>Connect and Close\<close>

text \<open>
  Claim C7, as amended (\<open>Connect\<close>). When the dial succeeds, the connection is kept, the
  timeout counter and the transfer size are set to zero, and the first thing written is
  the one-byte core-dump-read probe (followed at most by the writer's pause); no error is
  returned. When the dial fails, the error returned has the message
  \<open>error connecting to\<close>, the name of the host (the field \<open>Host\<close>, not the address
  \<open>Addr\<close> that was dialled) and the text of the dial error; the client and the world are
  unchanged.
\<close>

theorem Connect_behaviour:
  assumes "Connect c dial w = (err, c', w')"
  shows "(\<forall>k. dial = Inr k \<longrightarrow>
            err = None \<and> c' = c\<lparr>conn := Some k, timeouts := 0, otaSize := 0\<rparr> \<and>
            (\<exists>post. trace w' = trace w @ ConnWrite [cmdCoredumpRead] # post \<and>
                     set post \<subseteq> {Slept interval})) \<and>
         (\<forall>e. dial = Inl e \<longrightarrow>
            err = Some (ErrorString (''error connecting to '' @ Host (host c) @ '': '' @ Error e)) \<and>
            c' = c \<and> w' = w)"
proof (cases dial)
  case (Inl e)
  with assms show ?thesis by (auto simp: Connect_def)
next
  case (Inr k)
  let ?c1 = "c\<lparr>conn := Some k, timeouts := 0, otaSize := 0\<rparr>"
  obtain werr w1 where wb: "writeByte ?c1 cmdCoredumpRead w = (werr, w1)" by force
  from assms Inr wb have r: "err = None" "c' = ?c1" "w' = w1"
    by (auto simp: Connect_def Let_def)
  from writeByte_trace[OF wb]
  have "trace w1 = trace w @ ConnWrite [cmdCoredumpRead] # (if werr = None then [Slept interval] else [])"
    by simp
  then have "\<exists>post. trace w1 = trace w @ ConnWrite [cmdCoredumpRead] # post \<and> set post \<subseteq> {Slept interval}"
    by auto
  with r Inr show ?thesis by simp
qed

text \<open>A successful dial and a failed one, on the client whose address holds no IP.\<close>

theorem Connect_behaviour_witness:
  "fst (Connect c_nil (Inr 7) w0) = None \<and>
   fst (snd (Connect c_nil (Inr 7) w0)) = c_nil\<lparr>conn := Some 7, timeouts := 0, otaSize := 0\<rparr> \<and>
   trace (snd (snd (Connect c_nil (Inr 7) w0))) = [ConnWrite [cmdCoredumpRead], Slept interval] \<and>
   fst (Connect c_nil (Inl no_such_host) w0) =
     Some (ErrorString ''error connecting to esp32.local.: dial tcp: lookup <nil>: no such host'')"
proof -
  let ?r = "Connect c_nil (Inr 7) w0"
  let ?f = "Connect c_nil (Inl no_such_host) w0"
  have h: "?r = (fst ?r, fst (snd ?r), snd (snd ?r))" by simp
  have g: "?f = (fst ?f, fst (snd ?f), snd (snd ?f))" by simp
  have t: "trace (snd (snd ?r)) = [ConnWrite [cmdCoredumpRead], Slept interval]"
    by (simp add: Connect_def c_nil_def c0_def w0_def writeByte_def write_bytes_def write_one_byte
          conn_Write_def time_Sleep_def)
  from Connect_behaviour[OF h] Connect_behaviour[OF g] t show ?thesis
    by (simp add: c_nil_def c0_def no_such_host_def)
qed

text \<open>
  Claim C7 as it was stated fails in its last part: the error returned for a failed dial
  is built from the host's name, and here the address that was dialled does not occur in
  its message at all.
\<close>

theorem Connect_error_counterexample:
  "fst (Connect c_nil (Inl no_such_host) w0) =
     Some (ErrorString ''error connecting to esp32.local.: dial tcp: lookup <nil>: no such host'') \<and>
   Addr (host c_nil) = ''<nil>:8080'' \<and>
   \<not> contains ''error connecting to esp32.local.: dial tcp: lookup <nil>: no such host''
        (Addr (host c_nil))"
  by (simp add: Connect_def c_nil_def c0_def no_such_host_def)

lemma Client_conn_restore: "conn c = Some k \<Longrightarrow> c\<lparr>conn := Some k\<rparr> = c"
  by (cases c) simp

text \<open>
  Claim C8 (\<open>Close\<close>). With no connection held, \<open>Close\<close> returns nil and changes
  nothing. With a connection held, the socket is closed at a moment when the field is
  already nil (the event of the call says so); if the close succeeds the field stays nil
  and a second \<open>Close\<close> returns nil and changes nothing, and if it fails the error is
  returned and the client is as it was before the call.
\<close>

theorem Close_behaviour:
  assumes "Close c closed w = (err, c', w')"
  shows "(conn c = None \<longrightarrow> err = None \<and> c' = c \<and> w' = w) \<and>
         (\<forall>k. conn c = Some k \<longrightarrow>
            w' = log_event (ConnClose k None) w \<and> err = closed \<and>
            (closed = None \<longrightarrow> c' = c\<lparr>conn := None\<rparr> \<and>
                Close c' closed w' = (None, c', w')) \<and>
            (closed \<noteq> None \<longrightarrow> c' = c))"
proof (cases "conn c")
  case None
  with assms show ?thesis by (simp add: Close_def)
next
  case (Some k)
  show ?thesis
  proof (cases closed)
    case None
    with assms Some have "err = None" "c' = c\<lparr>conn := None\<rparr>" "w' = log_event (ConnClose k None) w"
      by (simp_all add: Close_def Let_def)
    moreover have "Close (c\<lparr>conn := None\<rparr>) None (log_event (ConnClose k None) w) =
        (None, c\<lparr>conn := None\<rparr>, log_event (ConnClose k None) w)"
      by (simp add: Close_def)
    ultimately show ?thesis using Some None by simp
  next
    case (Some e)
    with assms \<open>conn c = Some k\<close>
    have "err = Some e" "c' = c\<lparr>conn := Some k\<rparr>" "w' = log_event (ConnClose k None) w"
      by (simp_all add: Close_def Let_def)
    with Client_conn_restore[OF \<open>conn c = Some k\<close>] Some \<open>conn c = Some k\<close> show ?thesis by simp
  qed
qed

text \<open>
  A close that succeeds, a second close after it, and a close that fails.
\<close>

theorem Close_behaviour_witness:
  "Close c0 None w0 = (None, c0\<lparr>conn := None\<rparr>, log_event (ConnClose 0 None) w0) \<and>
   Close (c0\<lparr>conn := None\<rparr>) None (log_event (ConnClose 0 None) w0)
     = (None, c0\<lparr>conn := None\<rparr>, log_event (ConnClose 0 None) w0) \<and>
   Close c0 (Some close_err) w0 = (Some close_err, c0, log_event (ConnClose 0 None) w0)"
proof -
  let ?a = "Close c0 None w0"
  let ?b = "Close c0 (Some close_err) w0"
  have k: "conn c0 = Some 0" by (simp add: c0_def)
  have a: "?a = (fst ?a, fst (snd ?a), snd (snd ?a))" by simp
  have b: "?b = (fst ?b, fst (snd ?b), snd (snd ?b))" by simp
  from Close_behaviour[OF a] k
  have a1: "snd (snd ?a) = log_event (ConnClose 0 None) w0" "fst ?a = None"
       "fst (snd ?a) = c0\<lparr>conn := None\<rparr>"
       "Close (fst (snd ?a)) None (snd (snd ?a)) = (None, fst (snd ?a), snd (snd ?a))"
    by blast+
  from Close_behaviour[OF b] k
  have b1: "snd (snd ?b) = log_event (ConnClose 0 None) w0" "fst ?b = Some close_err"
       "fst (snd ?b) = c0"
    by blast+
  from a1 have "?a = (None, c0\<lparr>conn := None\<rparr>, log_event (ConnClose 0 None) w0)"
    by (metis a)
  moreover from b1 have "?b = (Some close_err, c0, log_event (ConnClose 0 None) w0)"
    by (metis b)
  moreover from a1 have "Close (c0\<lparr>conn := None\<rparr>) None (log_event (ConnClose 0 None) w0)
     = (None, c0\<lparr>conn := None\<rparr>, log_event (ConnClose 0 None) w0)" by simp
  ultimately show ?thesis by simp
qed

subsection \<open>The reader loop, case by case\<close>

lemma handleError_fields:
  "handleError c err w = (ok, c', w') \<Longrightarrow>
     otaSize c' = otaSize c \<and> onConfig c' = onConfig c \<and> conn c' = conn c \<and>
     host c' = host c \<and> otaLastMessage c' = otaLastMessage c"
  by (auto simp: handleError_def Let_def split: option.splits error.splits if_splits prod.splits)

lemma DisplayCoreDump_panic:
  "DisplayCoreDump data w = Panics p \<Longrightarrow> p = SliceBoundsOutOfRange 4 (length data) \<and> length data < 4"
  by (auto simp: DisplayCoreDump_def Let_def split: option.splits if_splits prod.splits)

lemma quo_pos: "0 < b \<Longrightarrow> quo a b \<noteq> Inl p"
  by (simp add: quo_def)

lemma Run_switch_PrintStdout:
  "Run_switch c cmdPrintStdout w =
     (case print c Stdout w of
        (err, w1) \<Rightarrow>
          (case handleError c err w1 of
             (False, c1, w2) \<Rightarrow> Returns (Return err, c1, w2)
           | (True, c1, w2) \<Rightarrow> Returns (Continue, c1, w2)))"
  by (simp add: Run_switch_def cmd_defs)

lemma Run_switch_PrintStderr:
  "Run_switch c cmdPrintStderr w =
     (case print c Stderr w of
        (err, w1) \<Rightarrow>
          (case handleError c err w1 of
             (False, c1, w2) \<Rightarrow> Returns (Return err, c1, w2)
           | (True, c1, w2) \<Rightarrow> Returns (Continue, c1, w2)))"
  by (simp add: Run_switch_def cmd_defs)

lemma Run_switch_Pong: "Run_switch c cmdPong w = Returns (Continue, c, w)"
  by (simp add: Run_switch_def cmd_defs)

lemma Run_switch_OTAFailed:
  "Run_switch c cmdOTAFailed w =
     (if \<not> isFlashingOTA c w then Returns (Continue, c, w)
      else Returns (Continue, c\<lparr>otaSize := 0\<rparr>, fprintf Stdout MsgOTAFailed w))"
  by (simp add: Run_switch_def cmd_defs)

lemma Run_switch_OTASuccess:
  "Run_switch c cmdOTASuccess w =
     (if \<not> isFlashingOTA c w then Returns (Continue, c, w)
      else Returns (Continue, c\<lparr>otaSize := 0\<rparr>, fprintf Stdout MsgOTAFinished w))"
  by (simp add: Run_switch_def cmd_defs)

lemma Run_switch_Continue:
  "Run_switch c cmdContinue w = Returns (Continue, c, fprintf Stdout MsgContinued w)"
  by (simp add: Run_switch_def cmd_defs)

lemma Run_switch_CoredumpErase:
  "Run_switch c cmdCoredumpErase w =
     (case writeByte c cmdContinue w of (werr, w1) \<Rightarrow> Returns (Continue, c, w1))"
  by (simp add: Run_switch_def cmd_defs)

lemma Run_switch_Config:
  "Run_switch c cmdConfig w =
     (case binary_Read_uint16 w of
        (size', err, w1) \<Rightarrow>
          (case handleError c err w1 of
             (False, c1, w2) \<Rightarrow> Returns (Return err, c1, w2)
           | (True, c1, w2) \<Rightarrow>
               (let cfg0 = \<lparr>Version = 0, WifiSSID = [], WifiPassword = [], WifiMode = 0\<rparr>
                in case (if size' > 0 then Run_config_fields c1 cfg0 w2 else (Inr cfg0, c1, w2)) of
                     (Inl rerr, c2, w3) \<Rightarrow> Returns (Return rerr, c2, w3)
                   | (Inr cfg, c2, w3) \<Rightarrow>
                       (let w4 = (case onConfig c2 of
                                    Some f \<Rightarrow> log_event (OnConfig f cfg) w3
                                  | None \<Rightarrow> snd (Reboot c2 w3))
                        in Returns (Continue, c2\<lparr>onConfig := None\<rparr>, w4)))))"
  by (simp add: Run_switch_def cmd_defs)

lemma Run_switch_CoredumpRead_eq:
  "Run_switch c cmdCoredumpRead w =
     (case readBlob32 c w of
        ((data, err), c1, w1) \<Rightarrow>
          (case err of
             Some e \<Rightarrow> Returns (Return err, c1, w1)
           | None \<Rightarrow>
               if length data = 0 then
                 (case writeByte c1 cmdContinue w1 of
                    (werr, w2) \<Rightarrow> Returns (Continue, c1, w2))
               else
                 (case DisplayCoreDump data (fprintf Stdout (MsgFoundCoredump (length data)) w1) of
                    Panics p \<Rightarrow> Panics p
                  | Hangs \<Rightarrow> Hangs
                  | Returns (del, derr, w3) \<Rightarrow>
                      (let w4 = (case derr of
                                   Some e \<Rightarrow> fprintf Stderr (MsgErrorDisplayingCoredump e) w3
                                 | None \<Rightarrow> w3)
                       in if del then
                            (case writeByte c1 cmdCoredumpErase w4 of
                               (werr, w5) \<Rightarrow> Returns (Continue, c1, w5))
                          else
                            (case writeByte c1 cmdContinue w4 of
                               (werr, w5) \<Rightarrow> Returns (Continue, c1, w5))))))"
  by (simp add: Run_switch_def cmd_defs)

lemma Run_switch_OTAProgress_eq:
  "Run_switch c cmdOTAProgress w =
     (if \<not> isFlashingOTA c w then Returns (Continue, c, w)
      else
        (case binary_Read_uint32 w of
           (offset, err, w1) \<Rightarrow>
             (case handleError c err w1 of
                (False, c1, w2) \<Rightarrow> Returns (Return err, c1, w2)
              | (True, c1, w2) \<Rightarrow>
                  (case quo (int (unat offset) * 100) (otaSize c1) of
                     Inl p \<Rightarrow> Panics p
                   | Inr percentage \<Rightarrow>
                       (let w3 = fprintf Stdout (MsgOTAProgress offset (otaSize c1) percentage) w2
                        in Returns (Continue, c1\<lparr>otaLastMessage := now w3\<rparr>, w3))))))"
  by (simp add: Run_switch_def cmd_defs)

lemma Run_switch_default:
  "cmd \<noteq> cmdPrintStdout \<Longrightarrow> cmd \<noteq> cmdPrintStderr \<Longrightarrow> cmd \<noteq> cmdPong \<Longrightarrow>
   cmd \<noteq> cmdOTAProgress \<Longrightarrow> cmd \<noteq> cmdOTAFailed \<Longrightarrow> cmd \<noteq> cmdOTASuccess \<Longrightarrow>
   cmd \<noteq> cmdContinue \<Longrightarrow> cmd \<noteq> cmdCoredumpRead \<Longrightarrow> cmd \<noteq> cmdCoredumpErase \<Longrightarrow>
   cmd \<noteq> cmdConfig \<Longrightarrow>
   Run_switch c cmd w = Returns (Continue, c, fprintf Stderr (MsgUnknownCommand cmd) w)"
  by (simp add: Run_switch_def)

lemma Run_switch_other:
  assumes "cmd \<noteq> cmdOTAProgress" "cmd \<noteq> cmdCoredumpRead"
  shows "\<exists>r. Run_switch c cmd w = Returns r"
proof -
  have 1: "\<exists>r. Run_switch c cmdPrintStdout w = Returns r"
    by (simp add: Run_switch_PrintStdout split: prod.splits bool.splits)
  have 2: "\<exists>r. Run_switch c cmdPrintStderr w = Returns r"
    by (simp add: Run_switch_PrintStderr split: prod.splits bool.splits)
  have 3: "\<exists>r. Run_switch c cmdOTAFailed w = Returns r"
    by (simp add: Run_switch_OTAFailed)
  have 4: "\<exists>r. Run_switch c cmdOTASuccess w = Returns r"
    by (simp add: Run_switch_OTASuccess)
  have 5: "\<exists>r. Run_switch c cmdCoredumpErase w = Returns r"
    by (simp add: Run_switch_CoredumpErase split: prod.splits)
  have 6: "\<exists>r. Run_switch c cmdConfig w = Returns r"
    by (simp add: Run_switch_Config Let_def split: prod.splits bool.splits sum.splits)
  show ?thesis
    using assms 1 2 3 4 5 6 Run_switch_Pong[of c w] Run_switch_Continue[of c w]
      Run_switch_default[of cmd c w]
    by metis
qed

lemma Run_switch_OTAProgress:
  "Run_switch c cmdOTAProgress w \<noteq> Panics p"
proof (cases "isFlashingOTA c w")
  case False
  then show ?thesis by (simp add: Run_switch_OTAProgress_eq)
next
  case True
  then have pos: "0 < otaSize c" by (simp add: isFlashingOTA_def)
  obtain offset err w1 where r: "binary_Read_uint32 w = (offset, err, w1)"
    by (cases "binary_Read_uint32 w") auto
  obtain ok c1 w2 where h: "handleError c err w1 = (ok, c1, w2)"
    by (cases "handleError c err w1") auto
  from handleError_fields[OF h] pos have "0 < otaSize c1" by simp
  then obtain q where q: "quo (int (unat offset) * 100) (otaSize c1) = Inr q"
    by (simp add: quo_def)
  show ?thesis using True r h q
    by (cases ok) (simp_all add: Run_switch_OTAProgress_eq Let_def)
qed

lemma Run_switch_CoredumpRead:
  "Run_switch c cmdCoredumpRead w = Panics p \<Longrightarrow> \<exists>n. p = SliceBoundsOutOfRange 4 n"
  by (auto simp: Run_switch_CoredumpRead_eq Let_def
      split: prod.splits option.splits if_splits outcome.splits dest: DisplayCoreDump_panic)

text \<open>
  Run alone, with no other goroutine storing into the client, no pass through the loop of
  \<open>Run\<close> and no case of its switch ends in a division by zero: the division by
  \<open>otaSize\<close> comes after \<open>isFlashingOTA\<close> has held, which needs a positive size, and
  \<open>handleError\<close>, the only call between the test and the division, keeps the size.
\<close>

lemma OTAProgress_alone_no_division_by_zero:
  "Run_switch c cmd w \<noteq> Panics IntegerDivideByZero \<and>
   Run_iteration c w \<noteq> Panics IntegerDivideByZero"
proof -
  have a: "Run_switch c cmd w \<noteq> Panics IntegerDivideByZero" for c cmd w
  proof (cases "cmd = cmdOTAProgress")
    case True
    then show ?thesis using Run_switch_OTAProgress by simp
  next
    case False
    show ?thesis
    proof (cases "cmd = cmdCoredumpRead")
      case True
      then show ?thesis using Run_switch_CoredumpRead[of c w IntegerDivideByZero] by auto
    next
      case c2: False
      from Run_switch_other[OF False c2, of c w] show ?thesis by auto
    qed
  qed
  have "Run_iteration c w \<noteq> Panics IntegerDivideByZero"
    using a by (auto simp: Run_iteration_def split: option.splits prod.splits sum.splits bool.splits)
  with a show ?thesis by simp
qed

text \<open>
  The division is reached: with a size of 100 and an offset of 50 the report says 50 percent.
\<close>

lemma OTAProgress_report_example:
  "Run_iteration c_progress w_progress =
     Returns (Continue, c_progress\<lparr>timeouts := 0, otaLastMessage := 2 * Second\<rparr>,
              w_progress\<lparr>rx := [], trace := [Fprintf Stdout (MsgOTAProgress 50 100 50)]\<rparr>) \<and>
   Run_iteration c_progress w_progress \<noteq> Panics IntegerDivideByZero"
proof -
  have "Run_iteration c_progress w_progress =
     Returns (Continue, c_progress\<lparr>timeouts := 0, otaLastMessage := 2 * Second\<rparr>,
              w_progress\<lparr>rx := [], trace := [Fprintf Stdout (MsgOTAProgress 50 100 50)]\<rparr>)"
    by (simp add: Run_iteration_def c_progress_def w_progress_def c0_def w0_def conn_Read_def
          Run_switch_OTAProgress_eq isFlashingOTA_def time_Since_def otaTimeout_def Second_def
          binary_Read_uint32_def io_ReadFull_def handleError_def quo_def fprintf_def)
  with OTAProgress_alone_no_division_by_zero[of c_progress cmdOTAProgress w_progress]
  show ?thesis by simp
qed

text \<open>
  The two steps put together again are the \<open>cmdOTAProgress\<close> case of \<open>Run\<close>, and
  \<open>Flash\<close> makes its two stores before it writes.
\<close>

lemma Run_switch_OTAProgress_steps:
  "Run_switch c cmdOTAProgress w =
     (if \<not> isFlashingOTA c w then Returns (Continue, c, w)
      else
        (case OTAProgress_read c w of
           (offset, err, ok, c1, w2) \<Rightarrow>
             if ok then OTAProgress_report c1 offset w2
             else Returns (Return err, c1, w2)))"
proof -
  obtain offset err w1 where r: "binary_Read_uint32 w = (offset, err, w1)"
    by (cases "binary_Read_uint32 w") auto
  obtain ok c1 w2 where h: "handleError c err w1 = (ok, c1, w2)"
    by (cases "handleError c err w1") auto
  show ?thesis
    by (cases ok)
       (simp_all add: Run_switch_OTAProgress_eq OTAProgress_read_def OTAProgress_report_def r h)
qed

lemma Flash_stores:
  "Flash c (Inr data) w =
     (case write_bytes (Flash_record c data w)
             ([cmdOTA] @ PutUint32 (word_of_nat (length data)) @ data) w of
        (err, w1) \<Rightarrow> (err, Flash_record c data w, w1))"
  by (simp add: Flash_def Flash_record_def Let_def)

text \<open>
  Claim C9 (the division of the progress report). The test \<open>isFlashingOTA\<close> and the
  division by \<open>c.otaSize\<close> are separated by the read of the offset, which can wait up to
  a second, and \<open>Flash\<close> stores into \<open>c.otaSize\<close> from another goroutine without a
  lock. During a transfer of 100 bytes a progress report arrives; the test holds and the
  offset 50 is read without an error; meanwhile \<open>Flash\<close> of an image file of no bytes
  has stored the size zero; the division then panics.
\<close>

theorem OTAProgress_divides_by_zero_during_Flash:
  "isFlashingOTA c_progress w_offset \<and>
   OTAProgress_read c_progress w_offset = (50, None, True, c_progress, w_offset\<lparr>rx := []\<rparr>) \<and>
   otaSize (Flash_record c_progress [] (w_offset\<lparr>rx := []\<rparr>)) = 0 \<and>
   OTAProgress_during_Flash c_progress [] w_offset = Panics IntegerDivideByZero"
proof -
  have a: "isFlashingOTA c_progress w_offset"
    by (simp add: isFlashingOTA_def c_progress_def c0_def w_offset_def w0_def time_Since_def
          otaTimeout_def Second_def)
  have b: "OTAProgress_read c_progress w_offset = (50, None, True, c_progress, w_offset\<lparr>rx := []\<rparr>)"
    by (simp add: OTAProgress_read_def binary_Read_uint32_def io_ReadFull_def w_offset_def w0_def
          handleError_def)
  have c: "otaSize (Flash_record c_progress [] (w_offset\<lparr>rx := []\<rparr>)) = 0"
    by (simp add: Flash_record_def)
  have "OTAProgress_report (Flash_record c_progress [] (w_offset\<lparr>rx := []\<rparr>)) 50 (w_offset\<lparr>rx := []\<rparr>)
          = Panics IntegerDivideByZero"
    by (simp add: OTAProgress_report_def Flash_record_def quo_def)
  with a b c show ?thesis by (simp add: OTAProgress_during_Flash_def)
qed

subsection \<open>Core dumps\<close>

lemma DisplayCoreDump_short:
  "tmp_create_err w = None \<Longrightarrow> length data < 4 \<Longrightarrow>
     DisplayCoreDump data w = Panics (SliceBoundsOutOfRange 4 (length data))"
  by (simp add: DisplayCoreDump_def Let_def log_event_def)

lemma handleError_None: "handleError c None w = (True, c, w)"
  by (simp add: handleError_def)

text \<open>
  Claim C10 (the slice \<open>data[4:]\<close> of the core-dump workflow). The dispatcher only
  tests the blob for emptiness, so a response that announces one byte hands a blob of one
  byte to \<open>DisplayCoreDump\<close>, whose \<open>data[4:]\<close> is then out of range: the pass ends in
  the panic "slice bounds out of range [4:1]".
\<close>

theorem short_coredump_slice_out_of_bounds:
  "fst (readBlob32 (c0\<lparr>timeouts := 0\<rparr>) (w0\<lparr>rx := map Data [0, 0, 0, 1, 170]\<rparr>)) = ([170], None) \<and>
   DisplayCoreDump [170] (fprintf Stdout (MsgFoundCoredump 1) (w0\<lparr>rx := []\<rparr>)) =
     Panics (SliceBoundsOutOfRange 4 1) \<and>
   Run_iteration c0 w_dump1 = Panics (SliceBoundsOutOfRange 4 1)"
proof -
  define wi where "wi = w0\<lparr>rx := map Data [0, 0, 0, 1, 170]\<rparr>"
  define wo where "wo = w0\<lparr>rx := []\<rparr>"
  have r: "readBlob32 (c0\<lparr>timeouts := 0\<rparr>) wi = (([170], None), c0\<lparr>timeouts := 0\<rparr>, wo)"
    by (simp add: readBlob32_def readBlob_def binary_Read_uint32_def io_ReadFull_def
        handleError_None w0_def wi_def wo_def)
  have d: "DisplayCoreDump [170] (fprintf Stdout m wo) = Panics (SliceBoundsOutOfRange 4 1)" for m
    using DisplayCoreDump_short[of "fprintf Stdout m wo" "[170]"]
    by (simp add: fprintf_def w0_def wo_def)
  have "Run_iteration c0 w_dump1 = Run_switch (c0\<lparr>timeouts := 0\<rparr>) cmdCoredumpRead wi"
    by (simp add: Run_iteration_def w_dump1_def conn_Read_def c0_def w0_def wi_def)
  then have "Run_iteration c0 w_dump1 = Panics (SliceBoundsOutOfRange 4 1)"
    by (simp add: Run_switch_CoredumpRead_eq r d)
  with d r show ?thesis unfolding wi_def wo_def by simp
qed

text \<open>
  Claim C5 (the reply to a core-dump-read response). For a non-empty blob of fewer than
  four bytes the workflow is started and panics before the user is asked; no reply is
  written, neither erase nor continue. Here the blob has three bytes and the user would
  have answered \<open>d\<close>.
\<close>

theorem short_coredump_no_reply:
  "Run_iteration c0 w_dump3 = Panics (SliceBoundsOutOfRange 4 3)"
proof -
  define wi where "wi = w0\<lparr>rx := map Data [0, 0, 0, 3, 1, 2, 3],
                           stdin_lines := [[CHR ''d'', CHR 0x0A]]\<rparr>"
  define wo where "wo = w0\<lparr>rx := [], stdin_lines := [[CHR ''d'', CHR 0x0A]]\<rparr>"
  have r: "readBlob32 (c0\<lparr>timeouts := 0\<rparr>) wi = (([1, 2, 3], None), c0\<lparr>timeouts := 0\<rparr>, wo)"
    by (simp add: readBlob32_def readBlob_def binary_Read_uint32_def io_ReadFull_def
        handleError_None w0_def wi_def wo_def)
  have d: "DisplayCoreDump [1, 2, 3] (fprintf Stdout m wo) = Panics (SliceBoundsOutOfRange 4 3)" for m
    using DisplayCoreDump_short[of "fprintf Stdout m wo" "[1, 2, 3]"]
    by (simp add: fprintf_def w0_def wo_def)
  have "Run_iteration c0 w_dump3 = Run_switch (c0\<lparr>timeouts := 0\<rparr>) cmdCoredumpRead wi"
    by (simp add: Run_iteration_def w_dump3_def conn_Read_def c0_def w0_def wi_def)
  then show ?thesis
    by (simp add: Run_switch_CoredumpRead_eq r d)
qed

subsection \<open>The config response\<close>



lemma io_ReadFull_trace: "io_ReadFull n w = (bs, e, w') \<Longrightarrow> trace w' = trace w"
  by (auto simp: io_ReadFull_def split: prod.splits)



lemma binary_Read_uint32_trace: "binary_Read_uint32 w = (v, e, w') \<Longrightarrow> trace w' = trace w"
  by (auto simp: binary_Read_uint32_def dest: io_ReadFull_trace split: prod.splits option.splits)













subsection \<open>The configuration record on the wire\<close>








text \<open>A text with no NUL byte in it is what comes back.\<close>

lemma Trim_NUL_id: "0 \<notin> set s \<Longrightarrow> Trim_NUL s = s"
proof -
  assume a: "0 \<notin> set s"
  have l: "dropWhile (\<lambda>b. b = 0) xs = xs" if "0 \<notin> set xs" for xs :: "byte list"
    using that by (cases xs) auto
  from a have "0 \<notin> set (rev s)" by simp
  with l[of "rev s"] l[of s] a show ?thesis
    by (simp add: Trim_NUL_def trimRightByte_def trimLeftByte_def)
qed










end
